theory Spec2Isabelle
  imports Complex_Main "HOL-Library.Word"
begin

section \<open>The playback engine of libgroove (grooveplayer/player.c)\<close>

text \<open>
  The player is embedded shallowly. \<^verbatim>\<open>struct GroovePlayerPrivate\<close> is a record that every
  operation takes and returns; each call into a collaborator (the sound backend, the sink,
  pthreads, the event queue) is logged, in program order, in a list of \<open>io\<close> events, and
  what a collaborator answers is an argument of the model.

  C \<^verbatim>\<open>int\<close> values are HOL integers (signed overflow is undefined in C and is not given a
  meaning here), \<^verbatim>\<open>size_t\<close> is a 64-bit word, and the two conversions between them are
  written out. A \<^verbatim>\<open>double\<close> is a value of IEEE 754 binary64, and its arithmetic rounds to
  the nearest such value. Where C leaves the behaviour of the program undefined (a
  \<^verbatim>\<open>double\<close> converted to an \<^verbatim>\<open>int\<close> that cannot hold it) the model stops with the
  outcome \<open>Undefined\<close>. Pointers to playlist items and
  playlists are \<open>nat option\<close>, \<open>None\<close> being \<^verbatim>\<open>NULL\<close>. The sample bytes of a frame are not
  modelled: a frame that is copied is named by its index in the buffer, a frame that is zeroed
  is a \<open>Memset_frame\<close>. Memory allocation for an event (\<^verbatim>\<open>av_malloc\<close>, \<^verbatim>\<open>groove_queue_put\<close>)
  is taken to succeed.
\<close>

subsection \<open>Data\<close>

type_synonym size_t = "64 word"

definition to_size_t :: "int \<Rightarrow> size_t" where
  \<comment> \<open>conversion of an \<^verbatim>\<open>int\<close> to \<^verbatim>\<open>size_t\<close>: reduction modulo \<open>2^64\<close>\<close>
  "to_size_t k = word_of_int k"

definition to_int :: "size_t \<Rightarrow> int" where
  \<comment> \<open>conversion of a \<^verbatim>\<open>size_t\<close> to a 32-bit \<^verbatim>\<open>int\<close>: the low 32 bits, read as signed\<close>
  "to_int x = sint (ucast x :: 32 word)"

text \<open>
  A \<^verbatim>\<open>double\<close> is a finite number, an infinity (the boolean says that it is the negative
  one) or NaN. The finite numbers that a program can hold are those which \<open>round_double\<close>
  leaves as they are: at most 53 significant binary digits, the last of them worth at least
  \<open>2^-1074\<close>, and a magnitude below \<open>2^1024\<close>. The two zeros are not told apart: the
  player never looks at the sign of a zero, and its only divisor is a converted \<^verbatim>\<open>int\<close>,
  whose zero is the positive one.

  \<open>round_double x\<close> is the \<^verbatim>\<open>double\<close> that an operation with the exact result \<open>x\<close>
  returns in the default rounding mode (to nearest, ties to the even neighbour):
  \<open>binade x\<close> is the exponent \<open>e\<close> with \<open>2^e \<le> |x| < 2^(e+1)\<close>, \<open>q\<close> the exponent of
  the last binary digit kept, and a result of magnitude \<open>2^1024\<close> or more overflows to an
  infinity. Each operation is evaluated in binary64 (no wider intermediate format).
\<close>

datatype double = Finite real | Infinite bool | NaN

fun bit_length :: "nat \<Rightarrow> nat" where
  \<comment> \<open>the number of binary digits of \<open>n\<close>\<close>
  "bit_length n = (if n = 0 then 0 else Suc (bit_length (n div 2)))"

declare bit_length.simps [simp del]

definition pow2 :: "int \<Rightarrow> real" where
  "pow2 k = (if 0 \<le> k then 2 ^ nat k else 1 / 2 ^ nat (- k))"

definition binade :: "real \<Rightarrow> int" where
  "binade x =
     (if 1 \<le> \<bar>x\<bar> then int (bit_length (nat \<lfloor>\<bar>x\<bar>\<rfloor>)) - 1
      else - int (bit_length (nat (\<lceil>1 / \<bar>x\<bar>\<rceil> - 1))))"

definition round_half_even :: "real \<Rightarrow> int" where
  "round_half_even x =
     (let f = \<lfloor>x\<rfloor>; r = x - of_int f
      in if r < 1 / 2 then f else if 1 / 2 < r then f + 1 else if even f then f else f + 1)"

definition round_double :: "real \<Rightarrow> double" where
  "round_double x =
     (if x = 0 then Finite 0
      else
        let q = max (binade x - 52) (- 1074);
            r = real_of_int (round_half_even (x / pow2 q)) * pow2 q
        in if 2 ^ 1024 \<le> \<bar>r\<bar> then Infinite (x < 0) else Finite r)"

definition double_of_int :: "int \<Rightarrow> double" where
  \<comment> \<open>conversion of an \<^verbatim>\<open>int\<close> to \<^verbatim>\<open>double\<close>; exact for every 32-bit value\<close>
  "double_of_int k = round_double (of_int k)"

fun double_mul :: "double \<Rightarrow> double \<Rightarrow> double" where
  "double_mul (Finite x) (Finite y) = round_double (x * y)"
| "double_mul (Finite x) (Infinite s) = (if x = 0 then NaN else Infinite (s \<noteq> (x < 0)))"
| "double_mul (Infinite s) (Finite y) = (if y = 0 then NaN else Infinite (s \<noteq> (y < 0)))"
| "double_mul (Infinite s) (Infinite s') = Infinite (s \<noteq> s')"
| "double_mul NaN y = NaN"
| "double_mul x NaN = NaN"

fun double_div :: "double \<Rightarrow> double \<Rightarrow> double" where
  "double_div (Finite x) (Finite y) =
     (if y = 0 then (if x = 0 then NaN else Infinite (x < 0)) else round_double (x / y))"
| "double_div (Finite x) (Infinite s) = Finite 0"
| "double_div (Infinite s) (Finite y) = Infinite (s \<noteq> (y < 0))"
| "double_div (Infinite s) (Infinite s') = NaN"
| "double_div NaN y = NaN"
| "double_div x NaN = NaN"

fun double_add :: "double \<Rightarrow> double \<Rightarrow> double" where
  "double_add (Finite x) (Finite y) = round_double (x + y)"
| "double_add (Finite x) (Infinite s) = Infinite s"
| "double_add (Infinite s) (Finite y) = Infinite s"
| "double_add (Infinite s) (Infinite s') = (if s = s' then Infinite s else NaN)"
| "double_add NaN y = NaN"
| "double_add x NaN = NaN"

text \<open>
  Conversion of a \<^verbatim>\<open>double\<close> to a 32-bit \<^verbatim>\<open>int\<close>: the fraction is discarded; \<open>None\<close> when
  the integral part cannot be represented, where C leaves the behaviour undefined.
\<close>

fun double_to_int :: "double \<Rightarrow> int option" where
  "double_to_int (Finite x) =
     (let k = (if x < 0 then \<lceil>x\<rceil> else \<lfloor>x\<rfloor>)
      in if - 2147483648 \<le> k \<and> k \<le> 2147483647 then Some k else None)"
| "double_to_int (Infinite s) = None"
| "double_to_int NaN = None"

datatype GrooveSampleFormat =
    GROOVE_SAMPLE_FMT_NONE
  | GROOVE_SAMPLE_FMT_U8
  | GROOVE_SAMPLE_FMT_S16
  | GROOVE_SAMPLE_FMT_S32
  | GROOVE_SAMPLE_FMT_FLT
  | GROOVE_SAMPLE_FMT_DBL
  | GROOVE_SAMPLE_FMT_U8P
  | GROOVE_SAMPLE_FMT_S16P
  | GROOVE_SAMPLE_FMT_S32P
  | GROOVE_SAMPLE_FMT_FLTP
  | GROOVE_SAMPLE_FMT_DBLP

datatype SoundIoFormat =
    SoundIoFormatInvalid
  | SoundIoFormatU8
  | SoundIoFormatS16NE
  | SoundIoFormatS32NE
  | SoundIoFormatFloat32NE
  | SoundIoFormatFloat64NE

datatype GroovePlayerEventType =
    GROOVE_EVENT_NOWPLAYING
  | GROOVE_EVENT_BUFFERUNDERRUN
  | GROOVE_EVENT_DEVICEREOPENED
  | GROOVE_EVENT_DEVICE_REOPEN_ERROR

record GrooveAudioFormat =
  sample_rate :: int
  channel_layout :: "64 word"
  sample_fmt :: GrooveSampleFormat

record GrooveBuffer =
  format :: GrooveAudioFormat
  item :: "nat option"
  pos :: double
  frame_count :: int

record SoundIoChannelLayout =
  layout_name :: string
  channel_count :: int

text \<open>
  \<^verbatim>\<open>struct SoundIoOutStream\<close> belongs to libsoundio. \<open>is_open\<close> and \<open>is_started\<close> are not
  fields of the C struct: they record that \<^verbatim>\<open>soundio_outstream_open\<close> and
  \<^verbatim>\<open>soundio_outstream_start\<close> have succeeded on the handle.
\<close>

record SoundIoOutStream =
  os_format :: SoundIoFormat
  os_sample_rate :: int
  os_layout :: SoundIoChannelLayout
  buffer_duration :: double
  is_open :: bool
  is_started :: bool

record SoundIoDevice =
  formats :: "SoundIoFormat list"
  layouts :: "SoundIoChannelLayout list"
  sample_rate_min :: int
  sample_rate_max :: int

text \<open>
  The fields of \<^verbatim>\<open>struct GrooveSink\<close> that the player reads or writes; \<open>sink_playlist\<close> is
  the sink's \<^verbatim>\<open>playlist\<close> pointer. Modelled from the spec: \<^verbatim>\<open>groove_sink_attach\<close> and
  \<^verbatim>\<open>groove_sink_detach\<close> are not part of this file; attaching registers the sink with the
  playlist and "detach reverses this", which is read as: a successful attach stores the
  playlist in that pointer and detach stores \<^verbatim>\<open>NULL\<close>.
\<close>

record GrooveSink =
  sink_audio_format :: GrooveAudioFormat
  disable_resample :: bool
  sink_buffer_size_of :: int
  sink_gain :: double
  sink_playlist :: "nat option"

text \<open>
  Modelled from the spec: the event FIFO (\<^verbatim>\<open>groove/queue.h\<close>) is not part of this file. It
  "holds pending Event values"; "on detach, the queue is flushed (drained) then marked aborted";
  attach resets it.
\<close>

record GrooveQueue =
  pending :: "GroovePlayerEventType list"
  aborted :: bool

definition groove_queue_put :: "GrooveQueue \<Rightarrow> GroovePlayerEventType \<Rightarrow> GrooveQueue" where
  \<comment> \<open>Modelled from the spec: the FIFO is not part of this file; an event is added at the end.\<close>
  "groove_queue_put q e = q\<lparr>pending := pending q @ [e]\<rparr>"

definition groove_queue_flush :: "GrooveQueue \<Rightarrow> GrooveQueue" where
  \<comment> \<open>Modelled from the spec: the FIFO is not part of this file; "flushed (drained)".\<close>
  "groove_queue_flush q = q\<lparr>pending := []\<rparr>"

definition groove_queue_abort :: "GrooveQueue \<Rightarrow> GrooveQueue" where
  \<comment> \<open>Modelled from the spec: the FIFO is not part of this file; "marked aborted".\<close>
  "groove_queue_abort q = q\<lparr>aborted := True\<rparr>"

definition groove_queue_reset :: "GrooveQueue \<Rightarrow> GrooveQueue" where
  \<comment> \<open>Modelled from the spec: the FIFO is not part of this file; a reset queue is empty and
      no longer aborted.\<close>
  "groove_queue_reset q = q\<lparr>pending := [], aborted := False\<rparr>"

text \<open>
  \<^verbatim>\<open>struct GroovePlayerPrivate\<close>, with the fields of its \<^verbatim>\<open>externals\<close>
  (\<^verbatim>\<open>struct GroovePlayer\<close>) first. The mutex, the condition variable and the thread id
  appear as events of the log, not as fields.
\<close>

record GroovePlayerPrivate =
  device :: "SoundIoDevice option"
  target_audio_format :: GrooveAudioFormat
  actual_audio_format :: GrooveAudioFormat
  use_exact_audio_format :: bool
  use_dummy_device :: bool
  sink_buffer_size :: int
  gain :: double
  playlist :: "nat option"
  audio_buf :: "GrooveBuffer option"
  audio_buf_size :: size_t
  audio_buf_index :: size_t
  play_head :: "nat option"
  play_pos :: double
  dummy_soundio :: bool
  dummy_device :: "SoundIoDevice option"
  outstream :: "SoundIoOutStream option"
  sink :: GrooveSink
  eventq :: GrooveQueue
  abort_request :: bool
  device_thread_inited :: bool
  silence_frames_left :: int
  request_device_reopen :: bool
  device_format :: GrooveAudioFormat

text \<open>What \<^verbatim>\<open>groove_sink_buffer_get\<close> returns; with \<open>GROOVE_BUFFER_YES\<close>, the buffer it stored.\<close>

datatype buffer_get =
    GROOVE_BUFFER_NO
  | GROOVE_BUFFER_YES GrooveBuffer
  | GROOVE_BUFFER_END

text \<open>The calls the player makes to its collaborators, as they appear in the log.\<close>

datatype io =
    Mutex_lock
  | Mutex_unlock
  | Cond_wait
  | Cond_signal
  | Thread_create
  | Thread_join
  | Begin_write int int
  | End_write int
  | Memset_frame
  | Memcpy_frame bool size_t
  | Buffer_unref "GrooveBuffer option"
  | Buffer_get buffer_get
  | Emit GroovePlayerEventType
  | Outstream_create
  | Outstream_open
  | Outstream_destroy
  | Outstream_start
  | Outstream_pause bool
  | Sink_attach
  | Sink_detach
  | Queue_flush
  | Queue_abort
  | Queue_reset
  | Device_unref
  | Soundio_create
  | Soundio_connect_backend
  | Soundio_destroy

subsection \<open>Helpers\<close>

definition groove_audio_formats_equal :: "GrooveAudioFormat \<Rightarrow> GrooveAudioFormat \<Rightarrow> bool" where
  \<comment> \<open>Modelled from the spec: \<^verbatim>\<open>groove_audio_formats_equal\<close> is declared in \<^verbatim>\<open>groove.h\<close>;
      "two formats are equal iff all three fields match".\<close>
  "groove_audio_formats_equal a b \<longleftrightarrow>
     sample_rate a = sample_rate b \<and> channel_layout a = channel_layout b \<and>
     sample_fmt a = sample_fmt b"

fun to_soundio_fmt :: "GrooveSampleFormat \<Rightarrow> SoundIoFormat" where
  "to_soundio_fmt GROOVE_SAMPLE_FMT_NONE = SoundIoFormatInvalid"
| "to_soundio_fmt GROOVE_SAMPLE_FMT_U8 = SoundIoFormatU8"
| "to_soundio_fmt GROOVE_SAMPLE_FMT_U8P = SoundIoFormatU8"
| "to_soundio_fmt GROOVE_SAMPLE_FMT_S16 = SoundIoFormatS16NE"
| "to_soundio_fmt GROOVE_SAMPLE_FMT_S16P = SoundIoFormatS16NE"
| "to_soundio_fmt GROOVE_SAMPLE_FMT_S32 = SoundIoFormatS32NE"
| "to_soundio_fmt GROOVE_SAMPLE_FMT_S32P = SoundIoFormatS32NE"
| "to_soundio_fmt GROOVE_SAMPLE_FMT_FLT = SoundIoFormatFloat32NE"
| "to_soundio_fmt GROOVE_SAMPLE_FMT_FLTP = SoundIoFormatFloat32NE"
| "to_soundio_fmt GROOVE_SAMPLE_FMT_DBL = SoundIoFormatFloat64NE"
| "to_soundio_fmt GROOVE_SAMPLE_FMT_DBLP = SoundIoFormatFloat64NE"

fun is_planar :: "GrooveSampleFormat \<Rightarrow> bool" where
  "is_planar GROOVE_SAMPLE_FMT_U8P = True"
| "is_planar GROOVE_SAMPLE_FMT_S16P = True"
| "is_planar GROOVE_SAMPLE_FMT_S32P = True"
| "is_planar GROOVE_SAMPLE_FMT_FLTP = True"
| "is_planar GROOVE_SAMPLE_FMT_DBLP = True"
| "is_planar _ = False"

definition emit_event :: "GroovePlayerPrivate \<Rightarrow> GroovePlayerEventType \<Rightarrow> GroovePlayerPrivate" where
  "emit_event p type = p\<lparr>eventq := groove_queue_put (eventq p) type\<rparr>"

subsection \<open>Purge and flush notifications of the sink\<close>

definition sink_purge :: "GroovePlayerPrivate \<Rightarrow> nat option \<Rightarrow> GroovePlayerPrivate \<times> io list" where
  "sink_purge p it =
     (if play_head p = it then
        (emit_event
           (p\<lparr>play_head := None, play_pos := Finite (- 1), audio_buf := None,
              audio_buf_index := 0, audio_buf_size := 0\<rparr>)
           GROOVE_EVENT_NOWPLAYING,
         [Mutex_lock, Buffer_unref (audio_buf p), Emit GROOVE_EVENT_NOWPLAYING, Mutex_unlock])
      else (p, [Mutex_lock, Mutex_unlock]))"

definition sink_flush :: "GroovePlayerPrivate \<Rightarrow> GroovePlayerPrivate \<times> io list" where
  "sink_flush p =
     (p\<lparr>audio_buf := None, audio_buf_index := 0, audio_buf_size := 0,
        play_pos := Finite (- 1), play_head := None\<rparr>,
      [Mutex_lock, Buffer_unref (audio_buf p), Mutex_unlock])"

subsection \<open>The output callback\<close>

text \<open>
  What the backend answers in one pass of the callback's loop: \<open>Granted w\<close> when
  \<^verbatim>\<open>soundio_outstream_begin_write\<close> succeeds and stores \<open>w\<close> in \<^verbatim>\<open>write_frame_count\<close> (and
  \<^verbatim>\<open>soundio_outstream_end_write\<close> succeeds too), \<open>Granted_end_fails w\<close> when the write
  that follows is refused, \<open>Begin_fails\<close> when begin_write returns an error. The callback
  receives one answer for each pass; the answers of the sink to \<^verbatim>\<open>groove_sink_buffer_get\<close>
  are a second list. A run that needs an answer from an empty list is \<open>Unscripted\<close>: nothing
  says what the collaborator would have done (a blocking get may wait for ever). \<open>Panic\<close> is
  the death of the process, \<open>Undefined\<close> a step whose behaviour C does not define.
\<close>

datatype slot = Granted int | Granted_end_fails int | Begin_fails

datatype 'a outcome = Done 'a | Panic | Unscripted | Undefined

datatype iter =
    Break GroovePlayerPrivate "buffer_get list" "io list"
  | Continue GroovePlayerPrivate "buffer_get list" "io list" int
  | Iter_panic
  | Iter_unscripted
  | Iter_undefined

fun prepend :: "io list \<Rightarrow> ('s \<times> 'b \<times> io list) outcome \<Rightarrow> ('s \<times> 'b \<times> io list) outcome" where
  "prepend t (Done (p, src, t')) = Done (p, src, t @ t')"
| "prepend t Panic = Panic"
| "prepend t Unscripted = Unscripted"
| "prepend t Undefined = Undefined"

text \<open>
  Lines 217 to 246: the exhausted buffer is released and one buffer is asked of the sink,
  whose answer is \<open>r\<close>. Modelled from the spec: \<^verbatim>\<open>groove_sink_buffer_get\<close> is not part of this
  file; when it has no buffer to give ("end-of-stream", "no buffer is available") it stores
  \<^verbatim>\<open>NULL\<close> in \<^verbatim>\<open>p->audio_buf\<close>. The boolean of the result is \<^verbatim>\<open>waiting_for_silence\<close>.
  Line 243 multiplies a \<^verbatim>\<open>double\<close> by an \<^verbatim>\<open>int\<close> (converted to \<^verbatim>\<open>double\<close>) and stores
  the product in an \<^verbatim>\<open>int\<close>; the result is \<open>None\<close> when that conversion is undefined.
\<close>

definition buffer_pull ::
  "SoundIoOutStream \<Rightarrow> GroovePlayerPrivate \<Rightarrow> buffer_get \<Rightarrow>
   (GroovePlayerPrivate \<times> bool \<times> io list) option" where
  "buffer_pull os p r =
     (let p0 = p\<lparr>audio_buf_index := 0, audio_buf_size := 0\<rparr>;
          t0 = [Buffer_unref (audio_buf p), Buffer_get r]
      in case r of
           GROOVE_BUFFER_END \<Rightarrow>
             Some (emit_event (p0\<lparr>audio_buf := None, play_head := None, play_pos := Finite (- 1)\<rparr>)
                     GROOVE_EVENT_NOWPLAYING,
                   False, t0 @ [Emit GROOVE_EVENT_NOWPLAYING])
         | GROOVE_BUFFER_NO \<Rightarrow> Some (p0\<lparr>audio_buf := None\<rparr>, False, t0)
         | GROOVE_BUFFER_YES b \<Rightarrow>
             (let changed = (play_head p0 \<noteq> item b);
                  p1 = (if changed then emit_event (p0\<lparr>audio_buf := Some b\<rparr>) GROOVE_EVENT_NOWPLAYING
                        else p0\<lparr>audio_buf := Some b\<rparr>);
                  t1 = t0 @ (if changed then [Emit GROOVE_EVENT_NOWPLAYING] else []);
                  p2 = p1\<lparr>play_head := item b, play_pos := pos b,
                          audio_buf_size := to_size_t (frame_count b)\<rparr>
              in if device_thread_inited p2 \<and>
                    \<not> groove_audio_formats_equal (format b) (device_format p2)
                 then (case double_to_int
                              (double_mul (buffer_duration os) (double_of_int (os_sample_rate os))) of
                         None \<Rightarrow> None
                       | Some l \<Rightarrow> Some (p2\<lparr>silence_frames_left := l\<rparr>, True, t1))
                 else Some (p2, False, t1)))"

text \<open>
  Lines 249 to 266: the whole granted slot is zeroed, one frame at a time; a pending
  silence drain is counted down and, once it is over, the reopen is requested and the
  watchdog is signalled; then the write is committed.
\<close>

definition fill_silence ::
  "int \<Rightarrow> bool \<Rightarrow> GroovePlayerPrivate \<Rightarrow> GroovePlayerPrivate \<times> io list" where
  "fill_silence w waiting p =
     (let t = replicate (nat w) Memset_frame;
          left = silence_frames_left p - w
      in if waiting then
           (if left \<le> 0
            then (p\<lparr>silence_frames_left := left, request_device_reopen := True\<rparr>, t @ [Cond_signal])
            else (p\<lparr>silence_frames_left := left\<rparr>, t))
         else (p, t))"

text \<open>
  The copy loops of lines 271 to 290, \<^verbatim>\<open>for (; p->audio_buf_index < end_frame; p->audio_buf_index += 1)\<close>:
  the planar and the interleaved branch visit the same frames; the result is the frames
  copied and the cursor the loop leaves.
\<close>

function copy_frames :: "bool \<Rightarrow> size_t \<Rightarrow> size_t \<Rightarrow> io list \<times> size_t" where
  "copy_frames planar i e =
     (if i < e
      then (case copy_frames planar (i + 1) e of (t, j) \<Rightarrow> (Memcpy_frame planar i # t, j))
      else ([], i))"
  by pat_completeness auto
termination
proof (relation "measure (\<lambda>(planar, i, e). unat e - unat i)")
  show "wf (measure (\<lambda>(planar, i, e). unat e - unat i))" by simp
next
  fix planar :: bool and i e :: size_t
  assume less: "i < e"
  have "i + 1 \<noteq> 0"
  proof
    assume "i + 1 = 0"
    then have "i = - 1" by (simp add: eq_neg_iff_add_eq_0)
    with less show False by simp
  qed
  then have "unat (i + 1) = Suc (unat i)" by (simp add: unatSuc add.commute)
  with less show "((planar, i + 1, e), (planar, i, e)) \<in> measure (\<lambda>(planar, i, e). unat e - unat i)"
    by (simp add: word_less_nat_alt)
qed

declare copy_frames.simps [simp del]

text \<open>Lines 268 to 298: at most \<open>w\<close> frames of the current buffer \<open>b\<close> are copied.\<close>

definition play_frames ::
  "SoundIoOutStream \<Rightarrow> int \<Rightarrow> GrooveBuffer \<Rightarrow> GroovePlayerPrivate \<Rightarrow> GroovePlayerPrivate \<times> io list \<times> int" where
  "play_frames os w b p =
     (let read_frame_count = audio_buf_size p - audio_buf_index p;
          frames = to_int (if read_frame_count < to_size_t w then read_frame_count
                                else to_size_t w);
          end_frame = to_int (audio_buf_index p + to_size_t frames)
      in case copy_frames (is_planar (sample_fmt (format b))) (audio_buf_index p)
                (to_size_t end_frame) of
           (t, i) \<Rightarrow>
             (p\<lparr>audio_buf_index := i,
                play_pos := double_add (play_pos p)
                              (double_div (double_of_int frames)
                                 (double_of_int (os_sample_rate os)))\<rparr>,
              t, frames))"

text \<open>
  One pass of the \<^verbatim>\<open>for (;;)\<close> loop, given the answer of the backend: the silence
  branch with its commit, the playing branch with its commit, and the pass as a whole.
\<close>

definition silence_pass ::
  "int \<Rightarrow> bool \<Rightarrow> bool \<Rightarrow> GroovePlayerPrivate \<Rightarrow> buffer_get list \<Rightarrow> io list \<Rightarrow> iter" where
  "silence_pass w end_ok waiting_for_silence p src t0 =
     (case fill_silence w waiting_for_silence p of
        (p2, t2) \<Rightarrow> if end_ok then Break p2 src (t0 @ t2 @ [End_write w]) else Iter_panic)"

definition play_pass ::
  "SoundIoOutStream \<Rightarrow> int \<Rightarrow> bool \<Rightarrow> int \<Rightarrow> GrooveBuffer \<Rightarrow> GroovePlayerPrivate \<Rightarrow>
   buffer_get list \<Rightarrow> io list \<Rightarrow> iter" where
  "play_pass os w end_ok requested_frame_count b p src t0 =
     (case play_frames os w b p of
        (p2, t2, frames) \<Rightarrow>
          if \<not> end_ok then Iter_panic
          else if requested_frame_count - frames \<le> 0
          then Break p2 src (t0 @ t2 @ [End_write frames])
          else Continue p2 src (t0 @ t2 @ [End_write frames]) (requested_frame_count - frames))"

definition loop_body ::
  "SoundIoOutStream \<Rightarrow> bool \<Rightarrow> int \<Rightarrow> bool \<Rightarrow> int \<Rightarrow> GroovePlayerPrivate \<Rightarrow> buffer_get list \<Rightarrow> iter" where
  "loop_body os paused w end_ok requested_frame_count p src =
     (if w = 0 then Break p src [Begin_write requested_frame_count w]
      else
        let waiting0 = (0 < silence_frames_left p);
            pull = (\<not> request_device_reopen p \<and> \<not> waiting0 \<and> \<not> paused \<and>
                    audio_buf_size p \<le> audio_buf_index p)
        in if pull \<and> src = [] then Iter_unscripted
           else
             (case (if pull then buffer_pull os p (hd src) else Some (p, waiting0, [])) of
                None \<Rightarrow> Iter_undefined
              | Some (p1, waiting_for_silence, t1) \<Rightarrow>
                  (let src1 = (if pull then tl src else src);
                       t0 = Begin_write requested_frame_count w # t1
                   in if request_device_reopen p1 \<or> waiting_for_silence \<or> paused \<or>
                         audio_buf p1 = None
                      then silence_pass w end_ok waiting_for_silence p1 src1 t0
                      else play_pass os w end_ok requested_frame_count (the (audio_buf p1))
                             p1 src1 t0)))"

definition audio_callback_iter ::
  "SoundIoOutStream \<Rightarrow> bool \<Rightarrow> slot \<Rightarrow> int \<Rightarrow> GroovePlayerPrivate \<Rightarrow> buffer_get list \<Rightarrow> iter" where
  "audio_callback_iter os paused g requested_frame_count p src =
     (case g of
        Begin_fails \<Rightarrow> Iter_panic
      | Granted w \<Rightarrow> loop_body os paused w True requested_frame_count p src
      | Granted_end_fails w \<Rightarrow> loop_body os paused w False requested_frame_count p src)"

fun audio_callback_loop ::
  "SoundIoOutStream \<Rightarrow> bool \<Rightarrow> slot list \<Rightarrow> int \<Rightarrow> GroovePlayerPrivate \<Rightarrow> buffer_get list \<Rightarrow>
   (GroovePlayerPrivate \<times> buffer_get list \<times> io list) outcome" where
  "audio_callback_loop os paused [] requested_frame_count p src = Unscripted"
| "audio_callback_loop os paused (g # gs) requested_frame_count p src =
     (case audio_callback_iter os paused g requested_frame_count p src of
        Break p' src' t \<Rightarrow> Done (p', src', t)
      | Continue p' src' t requested' \<Rightarrow>
          prepend t (audio_callback_loop os paused gs requested' p' src')
      | Iter_panic \<Rightarrow> Panic
      | Iter_unscripted \<Rightarrow> Unscripted
      | Iter_undefined \<Rightarrow> Undefined)"

text \<open>
  \<^verbatim>\<open>audio_callback\<close>: \<open>playing\<close> is what \<^verbatim>\<open>groove_playlist_playing\<close> answers when the
  callback starts. A panic aborts the process with the mutex held.
\<close>

definition audio_callback ::
  "SoundIoOutStream \<Rightarrow> bool \<Rightarrow> slot list \<Rightarrow> int \<Rightarrow> GroovePlayerPrivate \<Rightarrow> buffer_get list \<Rightarrow>
   (GroovePlayerPrivate \<times> buffer_get list \<times> io list) outcome" where
  "audio_callback os playing slots requested_frame_count p src =
     (case audio_callback_loop os (\<not> playing) slots requested_frame_count p src of
        Done (p', src', t) \<Rightarrow> Done (p', src', Mutex_lock # t @ [Mutex_unlock])
      | Panic \<Rightarrow> Panic
      | Unscripted \<Rightarrow> Unscripted
      | Undefined \<Rightarrow> Undefined)"



subsection \<open>Opening and closing the device\<close>

definition close_audio_device :: "GroovePlayerPrivate \<Rightarrow> GroovePlayerPrivate \<times> io list" where
  "close_audio_device p =
     (case outstream p of
        Some os \<Rightarrow> (p\<lparr>outstream := None\<rparr>, [Outstream_destroy])
      | None \<Rightarrow> (p, []))"

definition GROOVE_CH_LAYOUT_STEREO :: "64 word" where
  \<comment> \<open>Modelled from the spec: the constant is defined in \<^verbatim>\<open>groove.h\<close> (front left and front
      right, bits 1 and 2); the spec has the layout as an "enumerated layout tag".\<close>
  "GROOVE_CH_LAYOUT_STEREO = 3"

definition to_soundio_layout :: "64 word \<Rightarrow> SoundIoChannelLayout option" where
  \<comment> \<open>\<open>None\<close> is the panic on a layout other than stereo\<close>
  "to_soundio_layout in_layout =
     (if in_layout \<noteq> GROOVE_CH_LAYOUT_STEREO then None
      else Some \<lparr>layout_name = ''Stereo'', channel_count = 2\<rparr>)"

text \<open>
  What the world answers while a device is opened: the default output device, whether
  \<^verbatim>\<open>soundio_outstream_create\<close> and \<^verbatim>\<open>soundio_outstream_open\<close> succeed, and the buffer
  duration the backend gives the opened stream. A device supports the formats and layouts
  it lists.
\<close>

record open_env =
  default_device :: "SoundIoDevice option"
  outstream_create_ok :: bool
  outstream_open_ok :: bool
  opened_buffer_duration :: double

definition soundio_device_supports_format :: "SoundIoDevice \<Rightarrow> SoundIoFormat \<Rightarrow> bool" where
  "soundio_device_supports_format d f \<longleftrightarrow> f \<in> set (formats d)"

definition soundio_device_supports_layout :: "SoundIoDevice \<Rightarrow> SoundIoChannelLayout \<Rightarrow> bool" where
  "soundio_device_supports_layout d l \<longleftrightarrow> l \<in> set (layouts d)"

definition created_outstream :: SoundIoOutStream where
  "created_outstream =
     \<lparr>os_format = SoundIoFormatInvalid, os_sample_rate = 0,
      os_layout = \<lparr>layout_name = [], channel_count = 0\<rparr>,
      buffer_duration = Finite 0, is_open = False, is_started = False\<rparr>"

text \<open>
  \<^verbatim>\<open>open_audio_device\<close>. \<open>set_actual\<close> says that \<^verbatim>\<open>actual_format\<close> is not \<^verbatim>\<open>NULL\<close> (it
  then points to \<^verbatim>\<open>player->actual_audio_format\<close>). \<open>Panic\<close> is the death of the process:
  a call of \<^verbatim>\<open>panic\<close>, a failed \<^verbatim>\<open>assert\<close>, or the use of a \<^verbatim>\<open>NULL\<close> device.
\<close>

definition open_audio_device ::
  "open_env \<Rightarrow> GroovePlayerPrivate \<Rightarrow> GrooveAudioFormat \<Rightarrow> bool \<Rightarrow>
   (int \<times> GroovePlayerPrivate \<times> io list) outcome" where
  "open_audio_device env p target_format set_actual =
     (case (if use_dummy_device p then dummy_device p
            else (case device p of Some d \<Rightarrow> Some d | None \<Rightarrow> default_device env)) of
        None \<Rightarrow> Panic
      | Some dev \<Rightarrow>
          if outstream p \<noteq> None then Panic
          else if \<not> outstream_create_ok env then Done (- 1, p, [Outstream_create, Device_unref])
          else if \<not> soundio_device_supports_format dev (to_soundio_fmt (sample_fmt target_format))
          then Panic
          else if sample_rate target_format < sample_rate_min dev \<or>
                  sample_rate target_format > sample_rate_max dev
          then Panic
          else (case to_soundio_layout (channel_layout target_format) of
                  None \<Rightarrow> Panic
                | Some layout \<Rightarrow>
                    if \<not> soundio_device_supports_layout dev layout then Panic
                    else
                      let os = created_outstream
                                 \<lparr>os_format := to_soundio_fmt (sample_fmt target_format),
                                  os_sample_rate := sample_rate target_format,
                                  os_layout := layout\<rparr>
                      in if \<not> outstream_open_ok env
                         then Done (- 1, p\<lparr>outstream := Some os\<rparr>,
                                    [Outstream_create, Device_unref, Outstream_open])
                         else
                           let os' = os\<lparr>is_open := True,
                                        buffer_duration := opened_buffer_duration env\<rparr>;
                               p' = p\<lparr>outstream := Some os'\<rparr>
                           in Done (0,
                                    (if set_actual then p'\<lparr>actual_audio_format := target_format\<rparr>
                                     else p'),
                                    [Outstream_create, Device_unref, Outstream_open])))"

definition start_outstream :: "GroovePlayerPrivate \<Rightarrow> GroovePlayerPrivate" where
  \<comment> \<open>\<^verbatim>\<open>soundio_outstream_start(p->outstream)\<close>\<close>
  "start_outstream p = p\<lparr>outstream := map_option (\<lambda>os. os\<lparr>is_started := True\<rparr>) (outstream p)\<rparr>"

subsection \<open>The device watchdog\<close>

text \<open>
  One pass of the \<^verbatim>\<open>for (;;)\<close> loop of \<^verbatim>\<open>device_thread_run\<close>. The boolean of the result
  says whether the loop goes on (\<open>False\<close>: the thread returns). \<^verbatim>\<open>pthread_cond_wait\<close>
  gives the mutex up while it waits and holds it again when it returns. Reading
  \<^verbatim>\<open>p->audio_buf->format\<close> with no current buffer kills the process.
\<close>

definition device_thread_pass ::
  "open_env \<Rightarrow> GroovePlayerPrivate \<Rightarrow> (bool \<times> GroovePlayerPrivate \<times> io list) outcome" where
  "device_thread_pass env p =
     (if abort_request p then Done (False, p, [])
      else if \<not> request_device_reopen p
      then Done (True, p, [Mutex_lock, Cond_wait, Mutex_unlock])
      else
        (case close_audio_device (p\<lparr>request_device_reopen := False\<rparr>) of
           (p1, t1) \<Rightarrow>
             (case audio_buf p1 of
                None \<Rightarrow> Panic
              | Some b \<Rightarrow>
                  (case open_audio_device env (p1\<lparr>device_format := format b\<rparr>) (format b) False of
                     Done (err, p2, t2) \<Rightarrow>
                       if err \<noteq> 0
                       then Done (True, emit_event p2 GROOVE_EVENT_DEVICE_REOPEN_ERROR,
                                  Mutex_lock # t1 @ t2 @
                                  [Mutex_unlock, Emit GROOVE_EVENT_DEVICE_REOPEN_ERROR])
                       else Done (True, emit_event (start_outstream p2) GROOVE_EVENT_DEVICEREOPENED,
                                  Mutex_lock # t1 @ t2 @
                                  [Mutex_unlock, Outstream_start, Emit GROOVE_EVENT_DEVICEREOPENED])
                   | Panic \<Rightarrow> Panic
                   | Unscripted \<Rightarrow> Unscripted
                   | Undefined \<Rightarrow> Undefined))))"

subsection \<open>Create, attach and detach\<close>

definition groove_player_detach :: "GroovePlayerPrivate \<Rightarrow> int \<times> GroovePlayerPrivate \<times> io list" where
  "groove_player_detach p =
     (let t1 = (if device_thread_inited p then [Mutex_lock, Cond_signal, Mutex_unlock, Thread_join]
                else []);
          p1 = p\<lparr>abort_request := True, device_thread_inited := False,
                 eventq := groove_queue_abort (groove_queue_flush (eventq p))\<rparr>;
          t2 = [Queue_flush, Queue_abort];
          t3 = (if sink_playlist (sink p1) \<noteq> None then [Sink_detach] else []);
          p3 = p1\<lparr>sink := (sink p1)\<lparr>sink_playlist := None\<rparr>\<rparr>
      in case close_audio_device p3 of
           (p4, t4) \<Rightarrow>
             (0,
              p4\<lparr>dummy_device := None, dummy_soundio := False, playlist := None,
                 audio_buf := None, request_device_reopen := False,
                 silence_frames_left := 0, abort_request := False\<rparr>,
              t1 @ t2 @ t3 @ t4 @ [Device_unref, Soundio_destroy, Buffer_unref (audio_buf p4)]))"

text \<open>
  What the world answers during \<^verbatim>\<open>groove_player_attach\<close>: whether \<^verbatim>\<open>soundio_create\<close> and
  \<^verbatim>\<open>soundio_connect_backend\<close> succeed, the default device of the dummy backend, the answers
  for opening the device, whether \<^verbatim>\<open>pthread_create\<close> succeeds, what \<^verbatim>\<open>groove_sink_attach\<close>
  returns, and whether the playlist is playing.
\<close>

record attach_env =
  soundio_create_ok :: bool
  connect_backend_ok :: bool
  dummy_default_device :: "SoundIoDevice option"
  open_answers :: open_env
  pthread_create_ok :: bool
  sink_attach_err :: int
  playlist_playing :: bool

definition fail_attach ::
  "int \<Rightarrow> GroovePlayerPrivate \<Rightarrow> io list \<Rightarrow> (int \<times> GroovePlayerPrivate \<times> io list) outcome" where
  \<comment> \<open>\<^verbatim>\<open>groove_player_detach(player); return err;\<close>\<close>
  "fail_attach err p t =
     (case groove_player_detach p of (r, p', t') \<Rightarrow> Done (err, p', t @ t'))"

definition groove_player_attach ::
  "attach_env \<Rightarrow> GroovePlayerPrivate \<Rightarrow> nat option \<Rightarrow>
   (int \<times> GroovePlayerPrivate \<times> io list) outcome" where
  "groove_player_attach env p pl =
     (let p0 = p\<lparr>sink := (sink p)\<lparr>sink_gain := gain p, sink_buffer_size_of := sink_buffer_size p\<rparr>\<rparr>
      in if use_dummy_device p0 \<and> \<not> soundio_create_ok env
         then fail_attach (- 1) p0 [Soundio_create]
         else if use_dummy_device p0 \<and> \<not> connect_backend_ok env
         then fail_attach (- 1) (p0\<lparr>dummy_soundio := True\<rparr>) [Soundio_create, Soundio_connect_backend]
         else
           let p1 = (if use_dummy_device p0
                     then p0\<lparr>dummy_soundio := True, dummy_device := dummy_default_device env\<rparr>
                     else p0);
               t1 = (if use_dummy_device p0 then [Soundio_create, Soundio_connect_backend] else [])
           in (case open_audio_device (open_answers env) p1 (target_audio_format p1) True of
                 Panic \<Rightarrow> Panic
               | Unscripted \<Rightarrow> Unscripted
               | Undefined \<Rightarrow> Undefined
               | Done (err, p2, t2) \<Rightarrow>
                   if err \<noteq> 0 then fail_attach (- 1) p2 (t1 @ t2)
                   else
                     let p3 = p2\<lparr>sink := (sink p2)\<lparr>sink_audio_format := actual_audio_format p2\<rparr>\<rparr>
                     in if sample_fmt (sink_audio_format (sink p3)) = GROOVE_SAMPLE_FMT_NONE
                        then fail_attach (- 1) p3 (t1 @ t2)
                        else if use_exact_audio_format p3 \<and> \<not> pthread_create_ok env
                        then fail_attach (- 1) (p3\<lparr>sink := (sink p3)\<lparr>disable_resample := True\<rparr>\<rparr>)
                               (t1 @ t2 @ [Thread_create])
                        else
                          let p4 = (if use_exact_audio_format p3
                                    then p3\<lparr>sink := (sink p3)\<lparr>disable_resample := True\<rparr>,
                                            device_thread_inited := True\<rparr>
                                    else p3);
                              t4 = (if use_exact_audio_format p3 then [Thread_create] else [])
                          in if sink_attach_err env < 0
                             then fail_attach (sink_attach_err env) p4 (t1 @ t2 @ t4 @ [Sink_attach])
                             else
                               Done (0,
                                     start_outstream
                                       (p4\<lparr>sink := (sink p4)\<lparr>sink_playlist := pl\<rparr>,
                                           play_pos := Finite (- 1),
                                           eventq := groove_queue_reset (eventq p4)\<rparr>),
                                     t1 @ t2 @ t4 @ [Sink_attach, Queue_reset] @
                                     (if \<not> playlist_playing env then [Outstream_pause True] else []) @
                                     [Outstream_start])))"

text \<open>
  \<^verbatim>\<open>groove_player_create\<close>: the struct is allocated zeroed, the sink and the event queue are
  created, and the defaults are set. \<open>new_sink\<close> is what \<^verbatim>\<open>groove_sink_create\<close> returns;
  each failure returns \<^verbatim>\<open>NULL\<close>. The zero value of a sample format is
  \<open>GROOVE_SAMPLE_FMT_U8\<close>, the enumeration of \<^verbatim>\<open>groove.h\<close> starting at
  \<^verbatim>\<open>GROOVE_SAMPLE_FMT_NONE = -1\<close>.
\<close>

definition zero_format :: GrooveAudioFormat where
  "zero_format = \<lparr>sample_rate = 0, channel_layout = 0, sample_fmt = GROOVE_SAMPLE_FMT_U8\<rparr>"

definition groove_player_create ::
  "bool \<Rightarrow> GrooveSink option \<Rightarrow> bool \<Rightarrow> bool \<Rightarrow> bool \<Rightarrow> GroovePlayerPrivate option" where
  "groove_player_create alloc_ok new_sink mutex_ok queue_ok cond_ok =
     (if \<not> alloc_ok then None
      else case new_sink of
        None \<Rightarrow> None
      | Some sk \<Rightarrow>
          if \<not> mutex_ok \<or> \<not> queue_ok \<or> \<not> cond_ok then None
          else Some
            \<lparr>device = None,
             target_audio_format =
               \<lparr>sample_rate = 44100, channel_layout = GROOVE_CH_LAYOUT_STEREO,
                sample_fmt = GROOVE_SAMPLE_FMT_S16\<rparr>,
             actual_audio_format = zero_format,
             use_exact_audio_format = False,
             use_dummy_device = False,
             sink_buffer_size = 8192,
             gain = sink_gain sk,
             playlist = None,
             audio_buf = None,
             audio_buf_size = 0,
             audio_buf_index = 0,
             play_head = None,
             play_pos = Finite 0,
             dummy_soundio = False,
             dummy_device = None,
             outstream = None,
             sink = sk,
             eventq = \<lparr>pending = [], aborted = False\<rparr>,
             abort_request = False,
             device_thread_inited = False,
             silence_frames_left = 0,
             request_device_reopen = False,
             device_format = zero_format\<rparr>)"

subsection \<open>The two threads of the engine\<close>




subsection \<open>Reading a log\<close>

text \<open>
  \<open>under_lock held t\<close> lists the calls of the log \<open>t\<close> that are made while the mutex is
  held, \<open>held\<close> saying whether it is held at the start; \<open>outside_lock\<close> lists the others.
\<close>

fun under_lock :: "bool \<Rightarrow> io list \<Rightarrow> io list" where
  "under_lock held [] = []"
| "under_lock held (Mutex_lock # t) = under_lock True t"
| "under_lock held (Mutex_unlock # t) = under_lock False t"
| "under_lock held (e # t) = (if held then e # under_lock held t else under_lock held t)"

fun outside_lock :: "bool \<Rightarrow> io list \<Rightarrow> io list" where
  "outside_lock held [] = []"
| "outside_lock held (Mutex_lock # t) = outside_lock True t"
| "outside_lock held (Mutex_unlock # t) = outside_lock False t"
| "outside_lock held (e # t) = (if held then outside_lock held t else e # outside_lock held t)"

text \<open>The frames copied from a buffer, and the number of frames zeroed, in a log.\<close>

fun copied :: "io list \<Rightarrow> size_t list" where
  "copied [] = []"
| "copied (Memcpy_frame planar i # t) = i # copied t"
| "copied (e # t) = copied t"

fun silence_frames :: "io list \<Rightarrow> nat" where
  "silence_frames [] = 0"
| "silence_frames (Memset_frame # t) = Suc (silence_frames t)"
| "silence_frames (e # t) = silence_frames t"



fun log_of :: "('a \<times> 'b \<times> io list) outcome \<Rightarrow> io list" where
  "log_of (Done (a, b, t)) = t"
| "log_of Panic = []"
| "log_of Unscripted = []"
| "log_of Undefined = []"

text \<open>
  \<open>whole_buffer b\<close> is every frame of the buffer \<open>b\<close>, once and in order. \<open>watch_buffer\<close>
  reads a log one call at a time. It keeps the buffer that the sink gave last and that has not
  been released since, with the frames copied from it so far, and a flag that stays true as
  long as no buffer is asked for before the last one is released and every buffer of between
  0 and \<open>2^31 - 1\<close> frames was, at its release, the buffer being released and copied
  whole.
\<close>

definition whole_buffer :: "GrooveBuffer \<Rightarrow> size_t list" where
  "whole_buffer b = map word_of_nat [0..<nat (frame_count b)]"

definition sane_buffer :: "GrooveBuffer \<Rightarrow> bool" where
  "sane_buffer b \<longleftrightarrow> 0 \<le> frame_count b \<and> frame_count b < 2 ^ 31"

type_synonym buffer_watch = "(GrooveBuffer \<times> size_t list) option \<times> bool"

definition watch_buffer :: "buffer_watch \<Rightarrow> io \<Rightarrow> buffer_watch" where
  "watch_buffer m e =
     (case e of
        Buffer_get r \<Rightarrow>
          (case r of
             GROOVE_BUFFER_YES b \<Rightarrow> (Some (b, []), snd m \<and> fst m = None)
           | _ \<Rightarrow> (None, snd m \<and> fst m = None))
      | Memcpy_frame planar i \<Rightarrow>
          (case fst m of None \<Rightarrow> m | Some (b, fs) \<Rightarrow> (Some (b, fs @ [i]), snd m))
      | Buffer_unref u \<Rightarrow>
          (case fst m of
             None \<Rightarrow> m
           | Some (b, fs) \<Rightarrow>
               (None, snd m \<and> (\<not> sane_buffer b \<or> (u = Some b \<and> fs = whole_buffer b))))
      | _ \<Rightarrow> m)"


text \<open>
  \<open>watch_drain dfmt len\<close> reads a log for the silence drain that a change of format starts,
  \<open>dfmt\<close> being the device format and \<open>len\<close> the length of the drain (for \<open>drain_inv\<close> and
  \<open>drain_mid\<close> an option: \<open>None\<close> when the conversion that gives the length is undefined). Its state is a phase
  (0: no drain seen, 1: draining, 2: reopen signalled), the frames zeroed since the drain
  began, and a flag that stays true as long as no buffer is asked for once a drain has begun,
  the signal is given at most once in a drain, and at least \<open>len\<close> frames were zeroed before it.
  \<open>drain_inv\<close> ties that state to the player between two passes of the callback, and
  \<open>drain_mid\<close> within a pass, \<open>wt\<close> being \<^verbatim>\<open>waiting_for_silence\<close>.
\<close>

type_synonym drain_watch = "nat \<times> nat \<times> bool"

definition watch_drain :: "GrooveAudioFormat \<Rightarrow> int \<Rightarrow> drain_watch \<Rightarrow> io \<Rightarrow> drain_watch" where
  "watch_drain dfmt len m e =
     (case m of
        (phase, n, ok) \<Rightarrow>
          (case e of
             Buffer_get r \<Rightarrow>
               (if phase \<noteq> 0 then (phase, n, False)
                else (case r of
                        GROOVE_BUFFER_YES b \<Rightarrow>
                          if groove_audio_formats_equal (format b) dfmt then m else (1, 0, ok)
                      | _ \<Rightarrow> m))
           | Memset_frame \<Rightarrow> (phase, Suc n, ok)
           | Cond_signal \<Rightarrow>
               (if phase = 0 then m
                else if phase = 1 then (2, n, ok \<and> len \<le> int n)
                else (phase, n, False))
           | _ \<Rightarrow> m))"



text \<open>
  The landmarks of a log: the answers of the sink, the events emitted and the frames copied,
  in the order of the log.
\<close>

fun is_landmark :: "io \<Rightarrow> bool" where
  "is_landmark (Buffer_get r) = True"
| "is_landmark (Emit ev) = True"
| "is_landmark (Memcpy_frame planar i) = True"
| "is_landmark e = False"

definition landmarks :: "io list \<Rightarrow> io list" where
  "landmarks t = filter is_landmark t"



subsection \<open>Sample data\<close>

definition tenth_second :: double where
  \<comment> \<open>the \<^verbatim>\<open>double\<close> nearest to 0.1\<close>
  "tenth_second = round_double (1 / 10)"

definition stereo_s16 :: GrooveAudioFormat where
  "stereo_s16 =
     \<lparr>sample_rate = 44100, channel_layout = GROOVE_CH_LAYOUT_STEREO,
      sample_fmt = GROOVE_SAMPLE_FMT_S16\<rparr>"

definition stereo_48k :: GrooveAudioFormat where
  "stereo_48k =
     \<lparr>sample_rate = 48000, channel_layout = GROOVE_CH_LAYOUT_STEREO,
      sample_fmt = GROOVE_SAMPLE_FMT_S16\<rparr>"

definition sample_sink :: GrooveSink where
  "sample_sink =
     \<lparr>sink_audio_format = zero_format, disable_resample = False, sink_buffer_size_of = 8192,
      sink_gain = Finite 1, sink_playlist = None\<rparr>"

definition sample_device :: SoundIoDevice where
  "sample_device =
     \<lparr>formats = [SoundIoFormatS16NE, SoundIoFormatFloat32NE],
      layouts = [\<lparr>layout_name = ''Stereo'', channel_count = 2\<rparr>],
      sample_rate_min = 8000, sample_rate_max = 96000\<rparr>"

definition sample_open_env :: open_env where
  "sample_open_env =
     \<lparr>default_device = Some sample_device, outstream_create_ok = True,
      outstream_open_ok = True, opened_buffer_duration = tenth_second\<rparr>"

definition sample_env :: attach_env where
  "sample_env =
     \<lparr>soundio_create_ok = True, connect_backend_ok = True,
      dummy_default_device = Some sample_device, open_answers = sample_open_env,
      pthread_create_ok = True, sink_attach_err = 0, playlist_playing = True\<rparr>"

definition sample_outstream :: SoundIoOutStream where
  "sample_outstream =
     \<lparr>os_format = SoundIoFormatS16NE, os_sample_rate = 44100,
      os_layout = \<lparr>layout_name = ''Stereo'', channel_count = 2\<rparr>,
      buffer_duration = tenth_second, is_open = True, is_started = True\<rparr>"

text \<open>
  The player that \<^verbatim>\<open>groove_player_create\<close> and then \<^verbatim>\<open>groove_player_attach\<close> give with
  the sample answers, and the same player in exact-format mode (\<open>sample_exact\<close>).
\<close>

definition sample_player :: GroovePlayerPrivate where
  "sample_player =
     \<lparr>device = None, target_audio_format = stereo_s16, actual_audio_format = stereo_s16,
      use_exact_audio_format = False, use_dummy_device = False, sink_buffer_size = 8192,
      gain = Finite 1, playlist = None, audio_buf = None, audio_buf_size = 0, audio_buf_index = 0,
      play_head = None, play_pos = Finite (- 1), dummy_soundio = False, dummy_device = None,
      outstream = Some sample_outstream,
      sink = sample_sink\<lparr>sink_audio_format := stereo_s16, sink_playlist := Some 1\<rparr>,
      eventq = \<lparr>pending = [], aborted = False\<rparr>, abort_request = False,
      device_thread_inited = False, silence_frames_left = 0, request_device_reopen = False,
      device_format = zero_format\<rparr>"

definition sample_exact :: GroovePlayerPrivate where
  "sample_exact =
     sample_player\<lparr>use_exact_audio_format := True, device_thread_inited := True,
       sink := (sink sample_player)\<lparr>disable_resample := True\<rparr>, device_format := stereo_s16\<rparr>"

definition sample_buffer :: "nat \<Rightarrow> GrooveAudioFormat \<Rightarrow> int \<Rightarrow> GrooveBuffer" where
  "sample_buffer it fmt n = \<lparr>format = fmt, item = Some it, pos = Finite 0, frame_count = n\<rparr>"

text \<open>
  A format change in exact-format mode: \<open>sample_drained\<close> is \<open>sample_exact\<close> after one
  callback that pulled a 48 kHz buffer and zeroed a slot of 4500 frames; \<open>sample_reopened\<close> and
  \<open>sample_failed\<close> are what a pass of the watchdog makes of it when the device opens, and
  when \<^verbatim>\<open>soundio_outstream_open\<close> fails and leaves the handle \<open>sample_unopened\<close>.
\<close>

definition sample_drained :: GroovePlayerPrivate where
  "sample_drained =
     sample_exact\<lparr>audio_buf := Some (sample_buffer 7 stereo_48k 4), audio_buf_size := 4,
       audio_buf_index := 0, play_head := Some 7, play_pos := Finite 0, silence_frames_left := - 90,
       request_device_reopen := True,
       eventq := \<lparr>pending = [GROOVE_EVENT_NOWPLAYING], aborted = False\<rparr>\<rparr>"

definition sample_unopened :: SoundIoOutStream where
  "sample_unopened =
     \<lparr>os_format = SoundIoFormatS16NE, os_sample_rate = 48000,
      os_layout = \<lparr>layout_name = ''Stereo'', channel_count = 2\<rparr>,
      buffer_duration = Finite 0, is_open = False, is_started = False\<rparr>"

definition sample_failed :: GroovePlayerPrivate where
  "sample_failed =
     sample_drained\<lparr>request_device_reopen := False, device_format := stereo_48k,
       outstream := Some sample_unopened,
       eventq := \<lparr>pending = [GROOVE_EVENT_NOWPLAYING, GROOVE_EVENT_DEVICE_REOPEN_ERROR],
                  aborted = False\<rparr>\<rparr>"

definition sample_reopened :: GroovePlayerPrivate where
  "sample_reopened =
     sample_drained\<lparr>request_device_reopen := False, device_format := stereo_48k,
       outstream := Some (sample_outstream\<lparr>os_sample_rate := 48000\<rparr>),
       eventq := \<lparr>pending = [GROOVE_EVENT_NOWPLAYING, GROOVE_EVENT_DEVICEREOPENED],
                  aborted = False\<rparr>\<rparr>"

text \<open>
  A player detached while it plays and attached again: \<open>sample_playing\<close> is
  \<open>sample_player\<close> after one callback that pulled a buffer of item 7 and copied three of its
  four frames, \<open>sample_detached\<close> what \<^verbatim>\<open>groove_player_detach\<close> makes of it, and
  \<open>sample_reattached\<close> what \<^verbatim>\<open>groove_player_attach\<close> makes of that.
\<close>

definition sample_playing :: GroovePlayerPrivate where
  "sample_playing =
     sample_player\<lparr>audio_buf := Some (sample_buffer 7 stereo_s16 4), audio_buf_size := 4,
       audio_buf_index := 3, play_head := Some 7,
       play_pos := double_add (Finite 0) (double_div (double_of_int 3) (double_of_int 44100)),
       eventq := \<lparr>pending = [GROOVE_EVENT_NOWPLAYING], aborted = False\<rparr>\<rparr>"

definition sample_detached :: GroovePlayerPrivate where
  "sample_detached =
     sample_playing\<lparr>audio_buf := None, outstream := None,
       sink := (sink sample_playing)\<lparr>sink_playlist := None\<rparr>,
       eventq := \<lparr>pending = [], aborted = True\<rparr>\<rparr>"

definition sample_reattached :: GroovePlayerPrivate where
  "sample_reattached =
     sample_detached\<lparr>outstream := Some sample_outstream, play_pos := Finite (- 1),
       sink := (sink sample_playing)\<lparr>sink_playlist := Some 1\<rparr>,
       eventq := \<lparr>pending = [], aborted = False\<rparr>\<rparr>"










section \<open>Properties\<close>

subsection \<open>Evaluating the model\<close>

lemmas callback_defs =
  audio_callback_def audio_callback_iter_def loop_body_def buffer_pull_def silence_pass_def
  play_pass_def play_frames_def fill_silence_def emit_event_def groove_queue_put_def
  groove_audio_formats_equal_def to_size_t_def to_int_def Let_def copy_frames.simps

lemmas sample_defs =
  sample_player_def sample_exact_def sample_drained_def sample_unopened_def sample_failed_def
  sample_reopened_def sample_playing_def sample_detached_def sample_reattached_def sample_buffer_def stereo_s16_def stereo_48k_def
  zero_format_def sample_sink_def sample_outstream_def sample_device_def sample_open_env_def
  sample_env_def GROOVE_CH_LAYOUT_STEREO_def

lemma bit_length_simps:
  "bit_length 0 = 0"
  "bit_length (Suc 0) = 1"
  "bit_length (numeral k) = Suc (bit_length (numeral k div 2))"
  by (subst bit_length.simps, simp)+

lemmas double_defs =
  round_double_def binade_def round_half_even_def pow2_def double_of_int_def bit_length_simps

lemma sample_armed [simp]:
  "double_to_int (double_mul tenth_second (double_of_int 44100)) = Some 4410"
  by (simp add: tenth_second_def double_defs Let_def)




lemma copied_append: "copied (a @ b) = copied a @ copied b"
  by (induction a rule: copied.induct) simp_all

lemma silence_frames_append: "silence_frames (a @ b) = silence_frames a + silence_frames b"
  by (induction a rule: silence_frames.induct) simp_all

lemma silence_frames_replicate: "silence_frames (replicate n Memset_frame) = n"
  by (induction n) simp_all

lemma copied_replicate: "copied (replicate n Memset_frame) = []"
  by (induction n) simp_all

lemmas device_defs =
  device_thread_pass_def open_audio_device_def close_audio_device_def to_soundio_layout_def
  soundio_device_supports_format_def soundio_device_supports_layout_def created_outstream_def
  start_outstream_def emit_event_def groove_queue_put_def Let_def

lemmas attach_defs =
  groove_player_attach_def groove_player_detach_def fail_attach_def groove_queue_flush_def
  groove_queue_abort_def groove_queue_reset_def

lemma sample_player_attached:
  "groove_player_create True (Some sample_sink) True True True = Some p0 \<Longrightarrow>
   groove_player_attach sample_env p0 (Some 1) =
     Done (0, sample_player,
           [Outstream_create, Device_unref, Outstream_open, Sink_attach, Queue_reset,
            Outstream_start])"
  by (auto simp: groove_player_create_def attach_defs device_defs sample_defs)


lemma sample_reopen:
  "device_thread_pass sample_open_env sample_drained =
   Done (True, sample_reopened,
         [Mutex_lock, Outstream_destroy, Outstream_create, Device_unref, Outstream_open,
          Mutex_unlock, Outstream_start, Emit GROOVE_EVENT_DEVICEREOPENED])"
  by (simp add: device_defs sample_defs)

lemma sample_play:
  "audio_callback sample_outstream True [Granted 3] 3 sample_player
     [GROOVE_BUFFER_YES (sample_buffer 7 stereo_s16 4)] =
   Done (sample_playing, [],
         [Mutex_lock, Begin_write 3 3, Buffer_unref None,
          Buffer_get (GROOVE_BUFFER_YES (sample_buffer 7 stereo_s16 4)),
          Emit GROOVE_EVENT_NOWPLAYING, Memcpy_frame False 0, Memcpy_frame False 1,
          Memcpy_frame False 2, End_write 3, Mutex_unlock])"
  by (simp add: callback_defs sample_defs)

lemma sample_detach:
  "groove_player_detach sample_playing =
     (0, sample_detached,
      [Queue_flush, Queue_abort, Sink_detach, Outstream_destroy, Device_unref, Soundio_destroy,
       Buffer_unref (Some (sample_buffer 7 stereo_s16 4))])"
  by (simp add: attach_defs device_defs sample_defs)

lemma sample_reattach:
  "groove_player_attach sample_env sample_detached (Some 1) =
     Done (0, sample_reattached,
           [Outstream_create, Device_unref, Outstream_open, Sink_attach, Queue_reset,
            Outstream_start])"
  by (simp add: attach_defs device_defs sample_defs)

subsection \<open>The cursor of the current buffer\<close>







lemma watch_simps [simp]:
  "watch_buffer m (Begin_write a c) = m"
  "watch_buffer m (End_write a) = m"
  "watch_buffer m Memset_frame = m"
  "watch_buffer m Cond_signal = m"
  "watch_buffer m Mutex_lock = m"
  "watch_buffer m Mutex_unlock = m"
  "watch_buffer m (Emit ev) = m"
  "watch_buffer m (Buffer_get (GROOVE_BUFFER_YES b)) = (Some (b, []), snd m \<and> fst m = None)"
  "watch_buffer m (Buffer_get GROOVE_BUFFER_NO) = (None, snd m \<and> fst m = None)"
  "watch_buffer m (Buffer_get GROOVE_BUFFER_END) = (None, snd m \<and> fst m = None)"
  "watch_buffer (None, ok) (Memcpy_frame pl i) = (None, ok)"
  "watch_buffer (Some (b, fs), ok) (Memcpy_frame pl i) = (Some (b, fs @ [i]), ok)"
  "watch_buffer (None, ok) (Buffer_unref u) = (None, ok)"
  "watch_buffer (Some (b, fs), ok) (Buffer_unref u) =
     (None, ok \<and> (\<not> sane_buffer b \<or> (u = Some b \<and> fs = whole_buffer b)))"
  by (simp_all add: watch_buffer_def)


















subsection \<open>Buffers without frames\<close>

lemma copy_frames_empty: "copy_frames planar i i = ([], i)"
  by (subst copy_frames.simps) simp

lemma to_int_0: "to_int 0 = 0"
  by (simp add: to_int_def)

lemma play_frames_empty:
  assumes "audio_buf_size p = 0" "audio_buf_index p = 0"
  shows "play_frames os w b p =
           (p\<lparr>play_pos := double_add (play_pos p)
                 (double_div (double_of_int 0) (double_of_int (os_sample_rate os)))\<rparr>, [], 0)"
proof -
  have "(if (0::size_t) < to_size_t w then 0 else to_size_t w) = 0"
    by (simp add: word_gt_0)
  moreover have "p\<lparr>audio_buf_index := 0, play_pos := x\<rparr> = p\<lparr>play_pos := x\<rparr>" for x
    using assms(2) by (cases p) simp
  ultimately show ?thesis using assms
    by (simp add: play_frames_def Let_def to_int_0 to_size_t_def copy_frames_empty)
qed

lemma zero_frame_pull:
  assumes "frame_count b = 0" and "\<not> request_device_reopen p" and "silence_frames_left p \<le> 0"
    and "\<not> device_thread_inited p \<or> groove_audio_formats_equal (format b) (device_format p)"
  shows "buffer_pull os p (GROOVE_BUFFER_YES b) =
           Some (fst (the (buffer_pull os p (GROOVE_BUFFER_YES b))), False,
                 Buffer_unref (audio_buf p) # Buffer_get (GROOVE_BUFFER_YES b) #
                 (if play_head p \<noteq> item b then [Emit GROOVE_EVENT_NOWPLAYING] else []))"
    and "audio_buf (fst (the (buffer_pull os p (GROOVE_BUFFER_YES b)))) = Some b"
    and "audio_buf_size (fst (the (buffer_pull os p (GROOVE_BUFFER_YES b)))) = 0"
    and "audio_buf_index (fst (the (buffer_pull os p (GROOVE_BUFFER_YES b)))) = 0"
    and "play_pos (fst (the (buffer_pull os p (GROOVE_BUFFER_YES b)))) = pos b"
    and "\<not> request_device_reopen (fst (the (buffer_pull os p (GROOVE_BUFFER_YES b))))"
    and "silence_frames_left (fst (the (buffer_pull os p (GROOVE_BUFFER_YES b)))) \<le> 0"
    and "device_thread_inited (fst (the (buffer_pull os p (GROOVE_BUFFER_YES b)))) =
           device_thread_inited p"
    and "device_format (fst (the (buffer_pull os p (GROOVE_BUFFER_YES b)))) = device_format p"
  using assms by (auto simp: buffer_pull_def emit_event_def Let_def to_size_t_def)

lemma zero_frame_pass:
  assumes "frame_count b = 0" and "\<not> paused" and "\<not> request_device_reopen p"
    and "silence_frames_left p \<le> 0" and "audio_buf_size p \<le> audio_buf_index p"
    and "w \<noteq> 0" and "0 < requested"
    and "\<not> device_thread_inited p \<or> groove_audio_formats_equal (format b) (device_format p)"
  shows "audio_callback_loop os paused (Granted w # slots) requested p (GROOVE_BUFFER_YES b # src) =
           prepend
             (Begin_write requested w # Buffer_unref (audio_buf p) #
              Buffer_get (GROOVE_BUFFER_YES b) #
              (if play_head p \<noteq> item b then [Emit GROOVE_EVENT_NOWPLAYING] else []) @ [End_write 0])
             (audio_callback_loop os paused slots requested
                ((fst (the (buffer_pull os p (GROOVE_BUFFER_YES b))))
                   \<lparr>play_pos := double_add (pos b)
                      (double_div (double_of_int 0) (double_of_int (os_sample_rate os)))\<rparr>) src)"
proof -
  define p1 where "p1 = fst (the (buffer_pull os p (GROOVE_BUFFER_YES b)))"
  define t1 where "t1 = Buffer_unref (audio_buf p) # Buffer_get (GROOVE_BUFFER_YES b) #
                  (if play_head p \<noteq> item b then [Emit GROOVE_EVENT_NOWPLAYING] else [])"
  note z = zero_frame_pull [OF assms(1,3,4,8), of os, folded p1_def t1_def]
  from z(3,4) have "play_frames os w b p1 =
      (p1\<lparr>play_pos := double_add (play_pos p1)
            (double_div (double_of_int 0) (double_of_int (os_sample_rate os)))\<rparr>, [], 0)"
    by (rule play_frames_empty)
  with z(5) have play: "play_frames os w b p1 =
      (p1\<lparr>play_pos := double_add (pos b)
            (double_div (double_of_int 0) (double_of_int (os_sample_rate os)))\<rparr>, [], 0)"
    by simp
  have "loop_body os paused w True requested p (GROOVE_BUFFER_YES b # src) =
          Continue (p1\<lparr>play_pos := double_add (pos b)
                        (double_div (double_of_int 0) (double_of_int (os_sample_rate os)))\<rparr>)
            src (Begin_write requested w # t1 @ [End_write 0]) requested"
    using assms(2-7) z(1,2,6) play by (simp add: loop_body_def play_pass_def)
  then show ?thesis
    by (simp add: audio_callback_iter_def p1_def [symmetric] t1_def)
qed

lemma zero_frame_buffers_spin:
  assumes "frame_count b = 0" and "\<not> paused" and "w \<noteq> 0" and "0 < requested"
  shows "\<not> request_device_reopen p \<Longrightarrow> silence_frames_left p \<le> 0 \<Longrightarrow>
         audio_buf_size p \<le> audio_buf_index p \<Longrightarrow>
         \<not> device_thread_inited p \<or> groove_audio_formats_equal (format b) (device_format p) \<Longrightarrow>
         audio_callback_loop os paused (replicate n (Granted w)) requested p
           (replicate n (GROOVE_BUFFER_YES b)) = Unscripted"
proof (induction n arbitrary: p)
  case 0
  show ?case by simp
next
  case (Suc n)
  note z = zero_frame_pull [OF assms(1) Suc.prems(1,2,4), of os]
  note step = zero_frame_pass [OF assms(1,2) Suc.prems(1,2,3) assms(3,4) Suc.prems(4), of os
      "replicate n (Granted w)" "replicate n (GROOVE_BUFFER_YES b)"]
  have "audio_callback_loop os paused (replicate n (Granted w)) requested
          ((fst (the (buffer_pull os p (GROOVE_BUFFER_YES b))))
             \<lparr>play_pos := double_add (pos b)
                (double_div (double_of_int 0) (double_of_int (os_sample_rate os)))\<rparr>)
          (replicate n (GROOVE_BUFFER_YES b)) = Unscripted"
    using z(3,4,6,7,8,9) Suc.prems(4) by (intro Suc.IH) simp_all
  with step show ?case by simp
qed

subsection \<open>The silence drain\<close>

lemma drain_simps [simp]:
  "watch_drain d l m (Begin_write a c) = m"
  "watch_drain d l m (End_write a) = m"
  "watch_drain d l m Mutex_lock = m"
  "watch_drain d l m Mutex_unlock = m"
  "watch_drain d l m (Emit ev) = m"
  "watch_drain d l m (Buffer_unref u) = m"
  "watch_drain d l m (Memcpy_frame pl i) = m"
  "watch_drain d l (ph, n, ok) Memset_frame = (ph, Suc n, ok)"
  "watch_drain d l (0, n, ok) Cond_signal = (0, n, ok)"
  "watch_drain d l (Suc 0, n, ok) Cond_signal = (2, n, ok \<and> l \<le> int n)"
  "watch_drain d l (2, n, ok) Cond_signal = (2, n, False)"
  "watch_drain d l (0, n, ok) (Buffer_get GROOVE_BUFFER_NO) = (0, n, ok)"
  "watch_drain d l (0, n, ok) (Buffer_get GROOVE_BUFFER_END) = (0, n, ok)"
  "watch_drain d l (0, n, ok) (Buffer_get (GROOVE_BUFFER_YES b)) =
     (if groove_audio_formats_equal (format b) d then (0, n, ok) else (1, 0, ok))"
  "ph \<noteq> 0 \<Longrightarrow> watch_drain d l (ph, n, ok) (Buffer_get r) = (ph, n, False)"
  by (simp_all add: watch_drain_def split: prod.splits)











lemma silence_frames_snoc:
  "silence_frames (t @ [e]) = silence_frames t + (if e = Memset_frame then 1 else 0)"
  by (cases e) (simp_all add: silence_frames_append)




subsection \<open>One buffer, then the end of the stream\<close>

lemma landmarks_simps [simp]:
  "landmarks [] = []"
  "landmarks (a @ c) = landmarks a @ landmarks c"
  "landmarks (Begin_write r w # t) = landmarks t"
  "landmarks (End_write fr # t) = landmarks t"
  "landmarks (Buffer_unref u # t) = landmarks t"
  "landmarks (Cond_signal # t) = landmarks t"
  "landmarks (Mutex_lock # t) = landmarks t"
  "landmarks (Mutex_unlock # t) = landmarks t"
  "landmarks (Buffer_get g # t) = Buffer_get g # landmarks t"
  "landmarks (Emit ev # t) = Emit ev # landmarks t"
  "landmarks (replicate n Memset_frame) = []"
  "landmarks (map (\<lambda>k. Memcpy_frame pl (f k)) ks) = map (\<lambda>k. Memcpy_frame pl (f k)) ks"
  by (simp_all add: landmarks_def filter_map comp_def)




lemma silence_pass_not_continue [simp]:
  "silence_pass w end_ok wt p src t0 \<noteq> Continue p' src' t req'"
  by (simp add: silence_pass_def split: prod.splits)











subsection \<open>Without a watchdog thread\<close>




subsection \<open>After a failed reopen\<close>






subsection \<open>The claims\<close>












text \<open>
  C6, as the spec has it, fails: the watchdog destroys the old stream and creates and opens
  the new one between locking and unlocking the mutex.
\<close>

theorem device_thread_pass_holds_mutex:
  "under_lock False (log_of (device_thread_pass sample_open_env
      (sample_exact\<lparr>request_device_reopen := True,
                     audio_buf := Some (sample_buffer 7 stereo_48k 4)\<rparr>))) =
     [Outstream_destroy, Outstream_create, Device_unref, Outstream_open]"
  by (simp add: device_thread_pass_def open_audio_device_def close_audio_device_def sample_defs
       to_soundio_layout_def soundio_device_supports_format_def soundio_device_supports_layout_def
       created_outstream_def Let_def)

text \<open>
  C6, amended. A pass of the watchdog that finds no reopen request waits on the condition
  variable and unlocks. A pass that finds one clears the flag, closes the stream and creates
  and opens the new one, all with the mutex held; only \<^verbatim>\<open>soundio_outstream_start\<close> and the
  emission of the event (DeviceReopened, or DeviceReopenError when creating or opening
  failed) come after the unlock.
\<close>

theorem device_thread_pass_locking:
  assumes "device_thread_pass env p = Done (go_on, p', t)" and "\<not> abort_request p"
  shows "(\<not> request_device_reopen p \<longrightarrow> t = [Mutex_lock, Cond_wait, Mutex_unlock] \<and> p' = p) \<and>
         (request_device_reopen p \<longrightarrow>
            \<not> request_device_reopen p' \<and>
            under_lock False t =
              (if outstream p = None then [] else [Outstream_destroy]) @
              (if outstream_create_ok env then [Outstream_create, Device_unref, Outstream_open]
               else [Outstream_create, Device_unref]) \<and>
            outside_lock False t =
              (if outstream_create_ok env \<and> outstream_open_ok env
               then [Outstream_start, Emit GROOVE_EVENT_DEVICEREOPENED]
               else [Emit GROOVE_EVENT_DEVICE_REOPEN_ERROR]))"
  using assms
  by (auto simp: device_thread_pass_def open_audio_device_def close_audio_device_def Let_def
        emit_event_def start_outstream_def
        split: if_splits option.splits outcome.splits)

theorem device_thread_pass_locking_witness:
  "device_thread_pass sample_open_env sample_drained =
     Done (True, sample_reopened,
           [Mutex_lock, Outstream_destroy, Outstream_create, Device_unref, Outstream_open,
            Mutex_unlock, Outstream_start, Emit GROOVE_EVENT_DEVICEREOPENED]) \<and>
   \<not> abort_request sample_drained \<and> request_device_reopen sample_drained \<and>
   \<not> request_device_reopen sample_reopened \<and>
   under_lock False
     [Mutex_lock, Outstream_destroy, Outstream_create, Device_unref, Outstream_open,
      Mutex_unlock, Outstream_start, Emit GROOVE_EVENT_DEVICEREOPENED] =
     [Outstream_destroy, Outstream_create, Device_unref, Outstream_open] \<and>
   outside_lock False
     [Mutex_lock, Outstream_destroy, Outstream_create, Device_unref, Outstream_open,
      Mutex_unlock, Outstream_start, Emit GROOVE_EVENT_DEVICEREOPENED] =
     [Outstream_start, Emit GROOVE_EVENT_DEVICEREOPENED]"
proof -
  have a: "\<not> abort_request sample_drained" and r: "request_device_reopen sample_drained"
    by (simp_all add: sample_defs)
  from device_thread_pass_locking [OF sample_reopen a] r sample_reopen a show ?thesis
    by (simp add: sample_defs)
qed

text \<open>
  C7, as the spec has it, fails: a buffer without frames is not treated like "no buffer".
  With no buffer the callback zeroes the granted slot and returns; with a buffer of zero
  frames it zeroes nothing, commits a write of zero frames, and in the same invocation pulls
  the next buffer and copies its frames.
\<close>

theorem zero_frame_buffer_not_silence:
  "silence_frames (log_of (audio_callback sample_outstream True [Granted 4, Granted 4] 4 sample_player
      [GROOVE_BUFFER_YES (sample_buffer 7 stereo_s16 0),
       GROOVE_BUFFER_YES (sample_buffer 7 stereo_s16 4)])) = 0 \<and>
   copied (log_of (audio_callback sample_outstream True [Granted 4, Granted 4] 4 sample_player
      [GROOVE_BUFFER_YES (sample_buffer 7 stereo_s16 0),
       GROOVE_BUFFER_YES (sample_buffer 7 stereo_s16 4)])) = [0, 1, 2, 3] \<and>
   silence_frames (log_of (audio_callback sample_outstream True [Granted 4, Granted 4] 4 sample_player
      [GROOVE_BUFFER_NO, GROOVE_BUFFER_YES (sample_buffer 7 stereo_s16 4)])) = 4 \<and>
   copied (log_of (audio_callback sample_outstream True [Granted 4, Granted 4] 4 sample_player
      [GROOVE_BUFFER_NO, GROOVE_BUFFER_YES (sample_buffer 7 stereo_s16 4)])) = []"
  by (simp add: callback_defs sample_defs silence_frames_append silence_frames_replicate
        copied_append copied_replicate)

text \<open>
  C7, amended. When a pass of the loop pulls a buffer of zero frames that needs no format
  change (not paused, a slot granted, a positive request), it zeroes nothing: it commits a
  write of zero frames (adding zero frames' worth of time to the position), leaves the
  requested count as it was and goes on to the next pass, which finds the buffer exhausted
  and pulls again. So the invocation returns only with a later pass, and as long as the sink
  keeps yielding such buffers and slots are granted it does not return: with \<open>n\<close> of them
  and \<open>n\<close> slots the loop is still asking for the next.
\<close>

theorem zero_frame_buffer_pass:
  assumes "frame_count b = 0" and "\<not> paused" and "\<not> request_device_reopen p"
    and "silence_frames_left p \<le> 0" and "audio_buf_size p \<le> audio_buf_index p"
    and "w \<noteq> 0" and "0 < requested"
    and "\<not> device_thread_inited p \<or> groove_audio_formats_equal (format b) (device_format p)"
  shows "buffer_pull os p (GROOVE_BUFFER_YES b) \<noteq> None \<and>
         audio_callback_loop os paused (Granted w # slots) requested p (GROOVE_BUFFER_YES b # src) =
           prepend
             (Begin_write requested w # Buffer_unref (audio_buf p) #
              Buffer_get (GROOVE_BUFFER_YES b) #
              (if play_head p \<noteq> item b then [Emit GROOVE_EVENT_NOWPLAYING] else []) @ [End_write 0])
             (audio_callback_loop os paused slots requested
                ((fst (the (buffer_pull os p (GROOVE_BUFFER_YES b))))
                   \<lparr>play_pos := double_add (pos b)
                      (double_div (double_of_int 0) (double_of_int (os_sample_rate os)))\<rparr>) src) \<and>
         audio_buf_size (fst (the (buffer_pull os p (GROOVE_BUFFER_YES b)))) \<le>
           audio_buf_index (fst (the (buffer_pull os p (GROOVE_BUFFER_YES b)))) \<and>
         \<not> request_device_reopen (fst (the (buffer_pull os p (GROOVE_BUFFER_YES b)))) \<and>
         silence_frames_left (fst (the (buffer_pull os p (GROOVE_BUFFER_YES b)))) \<le> 0 \<and>
         audio_callback_loop os paused (replicate n (Granted w)) requested p
           (replicate n (GROOVE_BUFFER_YES b)) = Unscripted"
proof -
  note z = zero_frame_pull [OF assms(1,3,4,8), of os]
  have "buffer_pull os p (GROOVE_BUFFER_YES b) \<noteq> None" by (subst z(1)) simp
  with z(3,4,6,7) zero_frame_pass [OF assms, of os slots src]
    zero_frame_buffers_spin [OF assms(1,2,6,7,3,4,5,8), of os n]
  show ?thesis by simp
qed

theorem zero_frame_buffer_pass_witness:
  "frame_count (sample_buffer 7 stereo_s16 0) = 0 \<and>
   \<not> request_device_reopen sample_player \<and> silence_frames_left sample_player \<le> 0 \<and>
   audio_buf_size sample_player \<le> audio_buf_index sample_player \<and>
   \<not> device_thread_inited sample_player \<and>
   audio_callback_loop sample_outstream False [Granted 4, Granted 4] 4 sample_player
     [GROOVE_BUFFER_YES (sample_buffer 7 stereo_s16 0),
      GROOVE_BUFFER_YES (sample_buffer 7 stereo_s16 4)] =
     prepend
       [Begin_write 4 4, Buffer_unref None,
        Buffer_get (GROOVE_BUFFER_YES (sample_buffer 7 stereo_s16 0)),
        Emit GROOVE_EVENT_NOWPLAYING, End_write 0]
       (audio_callback_loop sample_outstream False [Granted 4] 4
          ((fst (the (buffer_pull sample_outstream sample_player
                        (GROOVE_BUFFER_YES (sample_buffer 7 stereo_s16 0)))))
             \<lparr>play_pos := double_add (pos (sample_buffer 7 stereo_s16 0))
                (double_div (double_of_int 0)
                   (double_of_int (os_sample_rate sample_outstream)))\<rparr>)
          [GROOVE_BUFFER_YES (sample_buffer 7 stereo_s16 4)]) \<and>
   audio_callback_loop sample_outstream False (replicate 5 (Granted 4)) 4 sample_player
     (replicate 5 (GROOVE_BUFFER_YES (sample_buffer 7 stereo_s16 0))) = Unscripted"
proof -
  have h: "frame_count (sample_buffer 7 stereo_s16 0) = 0" "\<not> False"
    "\<not> request_device_reopen sample_player" "silence_frames_left sample_player \<le> 0"
    "audio_buf_size sample_player \<le> audio_buf_index sample_player" "(4::int) \<noteq> 0" "(0::int) < 4"
    "\<not> device_thread_inited sample_player \<or>
     groove_audio_formats_equal (format (sample_buffer 7 stereo_s16 0)) (device_format sample_player)"
    and i: "\<not> device_thread_inited sample_player" "audio_buf sample_player = None"
      "play_head sample_player \<noteq> item (sample_buffer 7 stereo_s16 0)"
    by (simp_all add: sample_defs)
  from zero_frame_buffer_pass [OF h, of sample_outstream "[Granted 4]"
         "[GROOVE_BUFFER_YES (sample_buffer 7 stereo_s16 4)]" 5] h i
  show ?thesis by simp
qed



text \<open>
  C8. The end of the stream, a purge of the tracked item and a flush set the item to none and
  the position to -1 together, as the claim says; attach does not. \<^verbatim>\<open>groove_player_detach\<close>
  leaves the play head as it is and \<^verbatim>\<open>groove_player_attach\<close> resets the position but not
  the item (line 560). So when a player is created and attached, its callback (called on the
  started stream) has pulled a buffer of item 7 and copied three of its four frames, and the
  player is detached and attached again, the position is -1 while item 7 is still tracked,
  where the claim allows the position -1 only while the item is none. A flush of the same
  playing state resets both.
\<close>

theorem position_reset_with_item:
  "groove_player_attach sample_env
     (the (groove_player_create True (Some sample_sink) True True True)) (Some 1) =
     Done (0, sample_player,
           [Outstream_create, Device_unref, Outstream_open, Sink_attach, Queue_reset,
            Outstream_start]) \<and>
   outstream sample_player = Some sample_outstream \<and> is_started sample_outstream \<and>
   audio_callback sample_outstream True [Granted 3] 3 sample_player
     [GROOVE_BUFFER_YES (sample_buffer 7 stereo_s16 4)] =
     Done (sample_playing, [],
           [Mutex_lock, Begin_write 3 3, Buffer_unref None,
            Buffer_get (GROOVE_BUFFER_YES (sample_buffer 7 stereo_s16 4)),
            Emit GROOVE_EVENT_NOWPLAYING, Memcpy_frame False 0, Memcpy_frame False 1,
            Memcpy_frame False 2, End_write 3, Mutex_unlock]) \<and>
   groove_player_detach sample_playing =
     (0, sample_detached,
      [Queue_flush, Queue_abort, Sink_detach, Outstream_destroy, Device_unref, Soundio_destroy,
       Buffer_unref (Some (sample_buffer 7 stereo_s16 4))]) \<and>
   groove_player_attach sample_env sample_detached (Some 1) =
     Done (0, sample_reattached,
           [Outstream_create, Device_unref, Outstream_open, Sink_attach, Queue_reset,
            Outstream_start]) \<and>
   play_head sample_reattached = Some 7 \<and> play_pos sample_reattached = Finite (- 1) \<and>
   play_head (fst (sink_flush sample_playing)) = None \<and>
   play_pos (fst (sink_flush sample_playing)) = Finite (- 1)"
proof -
  have c: "groove_player_create True (Some sample_sink) True True True =
     Some (the (groove_player_create True (Some sample_sink) True True True))"
    by (simp add: groove_player_create_def)
  have s: "outstream sample_player = Some sample_outstream \<and> is_started sample_outstream"
    by (simp add: sample_player_def sample_outstream_def)
  have e: "play_head sample_reattached = Some 7 \<and> play_pos sample_reattached = Finite (- 1) \<and>
      play_head (fst (sink_flush sample_playing)) = None \<and>
      play_pos (fst (sink_flush sample_playing)) = Finite (- 1)"
    by (simp add: sink_flush_def sample_defs)
  from sample_player_attached [OF c] s sample_play sample_detach sample_reattach e
  show ?thesis by simp
qed

theorem position_reset_with_item_witness:
  "groove_player_attach sample_env sample_detached (Some 1) =
     Done (0, sample_reattached,
           [Outstream_create, Device_unref, Outstream_open, Sink_attach, Queue_reset,
            Outstream_start]) \<and>
   play_head sample_reattached = Some 7 \<and> play_pos sample_reattached = Finite (- 1)"
  using position_reset_with_item by blast

text \<open>
  C10. A purge notification for an item other than the one the play head tracks leaves the
  whole player state as it was and emits nothing (the log holds the lock and the unlock
  only). A purge of the tracked item clears the play head (item none, position -1), releases
  the current buffer, resets the cursor, and emits one NowPlaying event.
\<close>

theorem sink_purge_frame:
  "(play_head p \<noteq> it \<longrightarrow>
      sink_purge p it = (p, [Mutex_lock, Mutex_unlock])) \<and>
   (play_head p = it \<longrightarrow>
      play_head (fst (sink_purge p it)) = None \<and>
      play_pos (fst (sink_purge p it)) = Finite (- 1) \<and>
      audio_buf (fst (sink_purge p it)) = None \<and>
      audio_buf_index (fst (sink_purge p it)) = 0 \<and>
      audio_buf_size (fst (sink_purge p it)) = 0 \<and>
      pending (eventq (fst (sink_purge p it))) = pending (eventq p) @ [GROOVE_EVENT_NOWPLAYING] \<and>
      snd (sink_purge p it) =
        [Mutex_lock, Buffer_unref (audio_buf p), Emit GROOVE_EVENT_NOWPLAYING, Mutex_unlock])"
  by (simp add: sink_purge_def emit_event_def groove_queue_put_def)

theorem sink_purge_frame_witness:
  "sink_purge (sample_player\<lparr>play_head := Some 7\<rparr>) (Some 8) =
     (sample_player\<lparr>play_head := Some 7\<rparr>, [Mutex_lock, Mutex_unlock]) \<and>
   play_head (fst (sink_purge (sample_player\<lparr>play_head := Some 7\<rparr>) (Some 7))) = None \<and>
   play_pos (fst (sink_purge (sample_player\<lparr>play_head := Some 7\<rparr>) (Some 7))) = Finite (- 1) \<and>
   pending (eventq (fst (sink_purge (sample_player\<lparr>play_head := Some 7\<rparr>) (Some 7)))) =
     [GROOVE_EVENT_NOWPLAYING]"
  using sink_purge_frame [of "sample_player\<lparr>play_head := Some 7\<rparr>" "Some 8"]
        sink_purge_frame [of "sample_player\<lparr>play_head := Some 7\<rparr>" "Some 7"]
  by (simp add: sample_player_def)

text \<open>
  C9. Detach always returns 0, and detaching a player that has just been detached changes
  nothing: the second call returns 0 and the same state, and its log holds neither a lock nor
  a join of the watchdog thread, only the calls that flush and abort the (already flushed and
  aborted) event queue and release the (already released) device, backend and buffer.
\<close>

theorem groove_player_detach_idempotent:
  "fst (groove_player_detach p) = 0 \<and>
   groove_player_detach (fst (snd (groove_player_detach p))) =
     (0, fst (snd (groove_player_detach p)),
      [Queue_flush, Queue_abort, Device_unref, Soundio_destroy, Buffer_unref None])"
  by (simp add: groove_player_detach_def close_audio_device_def groove_queue_flush_def
        groove_queue_abort_def Let_def split: option.split)

end
